theory Spec2Isabelle
  imports Complex_Main
begin

section \<open>Python values, dictionaries and exceptions\<close>

text \<open>
  A query is a \<^verbatim>\<open>Dict[str, Any]\<close>: its values are arbitrary Python objects, as they come
  out of a JSON document. A dictionary is an association list, so that the order of its keys
  (\<^verbatim>\<open>dict.keys()\<close>) is part of the value; a lookup takes the first entry of a key.
  A Python \<^verbatim>\<open>float\<close> is modelled by a real number: arithmetic is exact, the rounding,
  overflow and special values of IEEE doubles are not part of the model.
\<close>

datatype pyval =
    PNone
  | PBool bool
  | PInt int
  | PFloat real
  | PStr string
  | PList "pyval list"
  | PDict "(string \<times> pyval) list"

type_synonym pydict = "(string \<times> pyval) list"

datatype py_error =
    TypeError
  | AttributeError
  | KeyError string
  | ValueError
  | IndexError
  | OSError
  | UnpicklingError
  | LibraryError

text \<open>Sequencing of computations that may raise: the first exception wins.\<close>

definition bind_err :: "py_error + 'a \<Rightarrow> ('a \<Rightarrow> py_error + 'b) \<Rightarrow> py_error + 'b" where
  "bind_err r f = (case r of Inl e \<Rightarrow> Inl e | Inr x \<Rightarrow> f x)"

text \<open>\<^verbatim>\<open>d.get(k, default)\<close> on a dictionary.\<close>

definition dict_get :: "pydict \<Rightarrow> string \<Rightarrow> pyval \<Rightarrow> pyval" where
  "dict_get d k dflt = (case map_of d k of None \<Rightarrow> dflt | Some v \<Rightarrow> v)"

text \<open>\<^verbatim>\<open>v.get(k, default)\<close> on an arbitrary object: only a dictionary has the method.\<close>

fun py_get :: "pyval \<Rightarrow> string \<Rightarrow> pyval \<Rightarrow> py_error + pyval" where
  "py_get (PDict d) k dflt = Inr (dict_get d k dflt)"
| "py_get _ k dflt = Inl AttributeError"

text \<open>\<^verbatim>\<open>len(v)\<close>: defined on lists, dictionaries and strings.\<close>

fun py_len :: "pyval \<Rightarrow> py_error + nat" where
  "py_len (PList xs) = Inr (length xs)"
| "py_len (PDict d) = Inr (length d)"
| "py_len (PStr s) = Inr (length s)"
| "py_len _ = Inl TypeError"

text \<open>Truth value of an object, as \<^verbatim>\<open>if not v\<close> tests it.\<close>

fun py_truthy :: "pyval \<Rightarrow> bool" where
  "py_truthy PNone = False"
| "py_truthy (PBool b) = b"
| "py_truthy (PInt n) = (n \<noteq> 0)"
| "py_truthy (PFloat x) = (x \<noteq> 0)"
| "py_truthy (PStr s) = (s \<noteq> [])"
| "py_truthy (PList xs) = (xs \<noteq> [])"
| "py_truthy (PDict d) = (d \<noteq> [])"

text \<open>\<^verbatim>\<open>for f in v\<close>: the elements of a list, the keys of a dictionary, the characters
  of a string; anything else is not iterable.\<close>

fun py_iter :: "pyval \<Rightarrow> py_error + pyval list" where
  "py_iter (PList xs) = Inr xs"
| "py_iter (PDict d) = Inr (map (\<lambda>kv. PStr (fst kv)) d)"
| "py_iter (PStr s) = Inr (map (\<lambda>c. PStr [c]) s)"
| "py_iter _ = Inl TypeError"

text \<open>\<^verbatim>\<open>v * x\<close> for a float \<^verbatim>\<open>x\<close>: numbers (and booleans, which are integers) multiply,
  every other object raises.\<close>

fun py_mul_float :: "pyval \<Rightarrow> real \<Rightarrow> py_error + real" where
  "py_mul_float (PInt n) x = Inr (of_int n * x)"
| "py_mul_float (PFloat y) x = Inr (y * x)"
| "py_mul_float (PBool b) x = Inr ((if b then 1 else 0) * x)"
| "py_mul_float _ x = Inl TypeError"

text \<open>\<^verbatim>\<open>int(x)\<close> of a float truncates towards zero.\<close>

definition py_int :: "real \<Rightarrow> int" where
  "py_int x = (if 0 \<le> x then \<lfloor>x\<rfloor> else \<lceil>x\<rceil>)"

section \<open>The heuristic fallback of the estimator\<close>

definition fallback_estimate :: "pydict \<Rightarrow> py_error + int" where
  "fallback_estimate query =
     bind_err (py_get (dict_get query ''table_stats'' (PDict [])) ''row_count'' (PInt 1000))
       (\<lambda>table_size.
     bind_err (py_len (dict_get query ''filters'' (PList [])))
       (\<lambda>num_filters.
     let selectivity = (1 / 2) ^ num_filters in
     bind_err (py_mul_float table_size selectivity)
       (\<lambda>prod. Inr (py_int prod))))"

section \<open>Feature extraction\<close>

text \<open>
  What the code observes of a \<^verbatim>\<open>datetime\<close>: the hour of the day and the day of the week.
  The wall clock is a sequence of readings: \<open>clock k\<close> is what the \<open>k\<close>-th call of
  \<^verbatim>\<open>datetime.now()\<close> made by an operation returns.
\<close>

record datetime =
  hour :: nat
  weekday :: nat

record FeatureExtractor =
  correlation_cache :: pydict

text \<open>The body of the loop over the filters: one filter multiplies the selectivity.\<close>

definition selectivity_step :: "real \<Rightarrow> pyval \<Rightarrow> py_error + real" where
  "selectivity_step selectivity f =
     bind_err (py_get f ''operator'' (PStr ''=''))
       (\<lambda>op.
          if op = PStr ''='' then Inr (selectivity * (1 / 10))
          else if op \<in> set [PStr ''<'', PStr ''>'', PStr ''<='', PStr ''>=''] then Inr (selectivity * (1 / 2))
          else if op = PStr ''LIKE'' then Inr (selectivity * (3 / 10))
          else Inr selectivity)"

fun selectivity_loop :: "real \<Rightarrow> pyval list \<Rightarrow> py_error + real" where
  "selectivity_loop selectivity [] = Inr selectivity"
| "selectivity_loop selectivity (f # fs) =
     bind_err (selectivity_step selectivity f) (\<lambda>s. selectivity_loop s fs)"

definition estimate_filter_selectivity :: "pyval \<Rightarrow> py_error + real" where
  "estimate_filter_selectivity filters =
     (if \<not> py_truthy filters then Inr 1
      else bind_err (py_iter filters)
             (\<lambda>fs. bind_err (selectivity_loop 1 fs)
                (\<lambda>selectivity. Inr (max selectivity (1 / 1000)))))"

definition detect_correlations :: "FeatureExtractor \<Rightarrow> pydict \<Rightarrow> real" where
  "detect_correlations self query = 0"

definition calculate_complexity :: "pydict \<Rightarrow> py_error + real" where
  "calculate_complexity query =
     bind_err (py_len (dict_get query ''filters'' (PList [])))
       (\<lambda>nf.
     bind_err (py_len (dict_get query ''joins'' (PList [])))
       (\<lambda>nj.
     bind_err (py_len (dict_get query ''aggregations'' (PList [])))
       (\<lambda>na.
     bind_err (py_len (dict_get query ''sort'' (PList [])))
       (\<lambda>ns.
     Inr (0 + real nf * 1 + real nj * 2 + real na * (3 / 2) + real ns * (1 / 2))))))"

definition check_indexes :: "pydict \<Rightarrow> real" where
  "check_indexes query = 1"

text \<open>
  \<^verbatim>\<open>FeatureExtractor.extract\<close> builds the feature dictionary entry by entry, in the order of the dictionary
  display; the first entry whose expression raises aborts the call. It reads the clock twice,
  once for the hour and once for the day of the week, and never writes the correlation cache.
\<close>

definition FeatureExtractor_extract :: "FeatureExtractor \<Rightarrow> (nat \<Rightarrow> datetime) \<Rightarrow> pydict \<Rightarrow> py_error + pydict" where
  "FeatureExtractor_extract self clock query =
     (let filters = dict_get query ''filters'' (PList []);
          joins = dict_get query ''joins'' (PList []);
          aggregations = dict_get query ''aggregations'' (PList []);
          table_stats = dict_get query ''table_stats'' (PDict [])
      in
      bind_err (py_len filters) (\<lambda>num_filters.
      bind_err (py_len joins) (\<lambda>num_joins.
      bind_err (py_len aggregations) (\<lambda>num_aggregations.
      bind_err (estimate_filter_selectivity filters) (\<lambda>filter_selectivity.
      bind_err (py_get table_stats ''row_count'' (PInt 0)) (\<lambda>table_size.
      bind_err (py_get table_stats ''distinct_count'' (PInt 0)) (\<lambda>table_ndv.
      bind_err (calculate_complexity query) (\<lambda>complexity_score.
      Inr [(''num_filters'', PInt (int num_filters)),
           (''num_joins'', PInt (int num_joins)),
           (''num_aggregations'', PInt (int num_aggregations)),
           (''filter_selectivity'', PFloat filter_selectivity),
           (''table_size'', table_size),
           (''table_ndv'', table_ndv),
           (''hour_of_day'', PInt (int (hour (clock 0)))),
           (''day_of_week'', PInt (int (weekday (clock 1)))),
           (''correlated_columns'', PFloat (detect_correlations self query)),
           (''complexity_score'', PFloat complexity_score),
           (''has_indexes'', PFloat (check_indexes query))]))))))))"

section \<open>The learned cardinality estimator\<close>

text \<open>
  The regression model is XGBoost's: its fitting and prediction are parameters of the
  embedding. \<open>xgb_fit m X y\<close> is the fitted model (or the exception the library raises),
  \<open>xgb_predict m X\<close> the array of raw scores, one per row of \<open>X\<close>.
\<close>

record 'm xgboost =
  xgb_fit :: "'m \<Rightarrow> pyval list list \<Rightarrow> real list \<Rightarrow> py_error + 'm"
  xgb_predict :: "'m \<Rightarrow> pyval list list \<Rightarrow> py_error + real list"

record 'm LearnedCardinalityEstimator =
  model :: 'm
  feature_extractor :: FeatureExtractor
  is_trained :: bool
  feature_names :: "string list"

record metrics =
  mae :: real
  rmse :: real
  num_samples :: nat

definition log1p :: "real \<Rightarrow> real" where
  "log1p x = ln (1 + x)"

definition expm1 :: "real \<Rightarrow> real" where
  "expm1 x = exp x - 1"

definition mean :: "real list \<Rightarrow> real" where
  "mean xs = sum_list xs / real (length xs)"

definition dict_keys :: "pydict \<Rightarrow> string list" where
  "dict_keys d = map fst d"

definition dict_values :: "pydict \<Rightarrow> pyval list" where
  "dict_values d = map snd d"

definition estimate ::
  "'m xgboost \<Rightarrow> (nat \<Rightarrow> datetime) \<Rightarrow> 'm LearnedCardinalityEstimator \<Rightarrow> pydict \<Rightarrow> py_error + int" where
  "estimate lib clock self query =
     (if \<not> is_trained self then fallback_estimate query
      else
        bind_err (FeatureExtractor_extract (feature_extractor self) clock query)
          (\<lambda>features.
        bind_err (xgb_predict lib (model self) [dict_values features])
          (\<lambda>predictions.
             case predictions of
               [] \<Rightarrow> Inl IndexError
             | log_card # _ \<Rightarrow>
                 let cardinality = py_int (expm1 log_card)
                 in Inr (max 1 (min cardinality 10000000)))))"

text \<open>
  The artifact written by \<^verbatim>\<open>save\<close> is a pickled dictionary with the keys \<^verbatim>\<open>model\<close>,
  \<^verbatim>\<open>feature_names\<close> and \<^verbatim>\<open>is_trained\<close>. A dictionary read back may lack any of them:
  each entry is optional, and an entry that is there has the type \<^verbatim>\<open>save\<close> gives it.
  A file either unpickles to such a dictionary or is not a pickle at all.
\<close>

record 'm model_data =
  md_model :: "'m option"
  md_feature_names :: "string list option"
  md_is_trained :: "bool option"

datatype 'm disk_file = Garbage | Pickle "'m model_data"

definition save ::
  "(string \<rightharpoonup> 'm disk_file) \<Rightarrow> 'm LearnedCardinalityEstimator \<Rightarrow> string \<Rightarrow> py_error + (string \<rightharpoonup> 'm disk_file)" where
  "save fs self path =
     (if \<not> is_trained self then Inl ValueError
      else
        let model_data = \<lparr>md_model = Some (model self),
                          md_feature_names = Some (feature_names self),
                          md_is_trained = Some (is_trained self)\<rparr>
        in Inr (fs(path \<mapsto> Pickle model_data)))"


text \<open>The constructor without a model path: a fresh regressor, nothing trained.\<close>

definition init :: "'m \<Rightarrow> 'm LearnedCardinalityEstimator" where
  "init fresh =
     \<lparr>model = fresh, feature_extractor = \<lparr>correlation_cache = []\<rparr>,
      is_trained = False, feature_names = []\<rparr>"

subsection \<open>Training\<close>

record QueryLog =
  query :: pydict
  actual_cardinality :: int
  execution_time_ms :: real
  timestamp :: datetime

text \<open>The loop of \<^verbatim>\<open>train\<close> over the logs; the \<open>i\<close>-th extraction makes the clock
  readings \<open>2 * i\<close> and \<open>2 * i + 1\<close> of the call.\<close>

fun train_loop ::
  "FeatureExtractor \<Rightarrow> (nat \<Rightarrow> datetime) \<Rightarrow> nat \<Rightarrow> QueryLog list \<Rightarrow> pyval list list \<Rightarrow> real list
     \<Rightarrow> py_error + (pyval list list \<times> real list)" where
  "train_loop fe clock i [] X y = Inr (X, y)"
| "train_loop fe clock i (lg # logs) X y =
     bind_err (FeatureExtractor_extract fe (\<lambda>k. clock (2 * i + k)) (query lg))
       (\<lambda>features.
          train_loop fe clock (Suc i) logs
            (X @ [dict_values features]) (y @ [log1p (real_of_int (actual_cardinality lg))]))"

text \<open>
  \<^verbatim>\<open>train\<close> returns its result (the metrics, or the exception raised) together with the
  estimator as the call leaves it: an assignment made before an exception stays.
\<close>

definition train ::
  "'m xgboost \<Rightarrow> (nat \<Rightarrow> datetime) \<Rightarrow> 'm LearnedCardinalityEstimator \<Rightarrow> QueryLog list
     \<Rightarrow> (py_error + metrics) \<times> 'm LearnedCardinalityEstimator" where
  "train lib clock self query_logs =
     (if query_logs = [] then (Inl ValueError, self)
      else
        case train_loop (feature_extractor self) clock 0 query_logs [] [] of
          Inl e \<Rightarrow> (Inl e, self)
        | Inr (X, y) \<Rightarrow>
            let self1 = self\<lparr>feature_names :=
                  (case query_logs of [] \<Rightarrow> [] | log0 # _ \<Rightarrow> dict_keys (query log0))\<rparr>
            in
            case xgb_fit lib (model self1) X y of
              Inl e \<Rightarrow> (Inl e, self1)
            | Inr m \<Rightarrow>
                let self2 = self1\<lparr>model := m, is_trained := True\<rparr> in
                case xgb_predict lib (model self2) X of
                  Inl e \<Rightarrow> (Inl e, self2)
                | Inr predictions \<Rightarrow>
                    (Inr \<lparr>mae = mean (map2 (\<lambda>p t. \<bar>p - t\<bar>) predictions y),
                          rmse = sqrt (mean (map2 (\<lambda>p t. (p - t)\<^sup>2) predictions y)),
                          num_samples = length query_logs\<rparr>,
                     self2))"

text \<open>The training logs of the module's example \<^verbatim>\<open>main\<close>.\<close>

definition sample_logs :: "datetime \<Rightarrow> QueryLog list" where
  "sample_logs now =
     [\<lparr>query =
         [(''filters'', PList [PDict [(''column'', PStr ''age''), (''operator'', PStr ''>''), (''value'', PInt 25)]]),
          (''joins'', PList []),
          (''aggregations'', PList []),
          (''table_stats'', PDict [(''row_count'', PInt 10000), (''distinct_count'', PInt 5000)])],
       actual_cardinality = 3500, execution_time_ms = 241 / 2, timestamp = now\<rparr>,
      \<lparr>query =
         [(''filters'', PList [PDict [(''column'', PStr ''age''), (''operator'', PStr ''>''), (''value'', PInt 25)],
                               PDict [(''column'', PStr ''city''), (''operator'', PStr ''=''), (''value'', PStr ''NYC'')]]),
          (''joins'', PList []),
          (''aggregations'', PList []),
          (''table_stats'', PDict [(''row_count'', PInt 10000), (''distinct_count'', PInt 5000)])],
       actual_cardinality = 350, execution_time_ms = 476 / 5, timestamp = now\<rparr>]"

section \<open>The offline trainer\<close>














section \<open>Reference formulations and test fixtures\<close>






text \<open>The eleven feature names, in the order \<^verbatim>\<open>FeatureExtractor.extract\<close> gives them.\<close>

definition feature_schema :: "string list" where
  "feature_schema =
     [''num_filters'', ''num_joins'', ''num_aggregations'', ''filter_selectivity'',
      ''table_size'', ''table_ndv'', ''hour_of_day'', ''day_of_week'',
      ''correlated_columns'', ''complexity_score'', ''has_indexes'']"

text \<open>A clock that stands still, a clock that moves after its first reading, and a regressor
  that predicts the mean of its targets.\<close>

definition clock_at :: "nat \<Rightarrow> nat \<Rightarrow> nat \<Rightarrow> datetime" where
  "clock_at h d k = \<lparr>hour = h, weekday = d\<rparr>"

definition readings :: "datetime \<Rightarrow> datetime \<Rightarrow> nat \<Rightarrow> datetime" where
  "readings first later k = (if k = 0 then first else later)"

definition mean_regressor :: "real xgboost" where
  "mean_regressor =
     \<lparr>xgb_fit = (\<lambda>m X y. Inr (mean y)),
      xgb_predict = (\<lambda>m X. Inr (map (\<lambda>row. m) X))\<rparr>"






section \<open>Properties of the fallback heuristic\<close>




text \<open>
  Claim C10. When no model is trained and the query has no \<^verbatim>\<open>table_stats\<close> entry, or its
  \<^verbatim>\<open>table_stats\<close> has no \<^verbatim>\<open>row_count\<close>, the estimate takes a table size of 1000: it is
  \<^verbatim>\<open>int(1000 * 0.5 ** num_filters)\<close>, and exactly 1000 for a query without filters.
\<close>

theorem fallback_default_table_size:
  assumes "\<not> is_trained self"
    and "map_of q ''table_stats'' = None
         \<or> (map_of q ''table_stats'' = Some (PDict ts) \<and> map_of ts ''row_count'' = None)"
    and "dict_get q ''filters'' (PList []) = PList fs"
  shows "estimate lib clock self q = Inr (py_int (1000 * (1 / 2) ^ length fs))
       \<and> (fs = [] \<longrightarrow> estimate lib clock self q = Inr 1000)"
proof -
  have "py_get (dict_get q ''table_stats'' (PDict [])) ''row_count'' (PInt 1000) = Inr (PInt 1000)"
    using assms(2) by (auto simp: dict_get_def)
  then have "estimate lib clock self q = Inr (py_int (1000 * (1 / 2) ^ length fs))"
    using assms(1,3) by (simp add: estimate_def fallback_estimate_def bind_err_def)
  moreover have "py_int (1000 * (1 / 2) ^ length ([] :: pyval list)) = 1000"
    by (simp add: py_int_def)
  ultimately show ?thesis by auto
qed

theorem fallback_default_table_size_witness:
  "estimate mean_regressor (clock_at 10 2) (init 0) [] = Inr 1000
   \<and> estimate mean_regressor (clock_at 10 2) (init 0)
        [(''table_stats'', PDict [(''distinct_count'', PInt 7)]), (''filters'', PList [PDict []])]
       = Inr 500"
  using fallback_default_table_size [of "init 0" "[]" "[]" "[]" mean_regressor "clock_at 10 2"]
    fallback_default_table_size [of "init 0"
      "[(''table_stats'', PDict [(''distinct_count'', PInt 7)]), (''filters'', PList [PDict []])]"
      "[(''distinct_count'', PInt 7)]" "[PDict []]" mean_regressor "clock_at 10 2"]
  by (simp add: init_def dict_get_def py_int_def)

text \<open>
  Claim C1. The estimate is claimed to be at least 1 on every path. The trained path clamps
  its result; the fallback path returns the truncated product as it is. An untrained
  estimator returns 0 for a table of no rows, and for ten filters on a table of the default
  size, since \<^verbatim>\<open>int(1000 * 0.5 ** 10) = int(0.9765625) = 0\<close>.
\<close>

theorem fallback_estimate_zero:
  "estimate lib clock (init m) [(''table_stats'', PDict [(''row_count'', PInt 0)])] = Inr 0
   \<and> estimate lib clock (init m) [(''filters'', PList (replicate 10 (PDict [])))] = Inr 0"
  by (simp add: estimate_def init_def fallback_estimate_def bind_err_def dict_get_def
      py_int_def power_one_over)

section \<open>Properties of feature extraction\<close>





section \<open>Properties of the trained path\<close>







lemma extract_empty:
  "FeatureExtractor_extract fe clock [] =
     Inr [(''num_filters'', PInt 0), (''num_joins'', PInt 0), (''num_aggregations'', PInt 0),
          (''filter_selectivity'', PFloat 1), (''table_size'', PInt 0), (''table_ndv'', PInt 0),
          (''hour_of_day'', PInt (int (hour (clock 0)))), (''day_of_week'', PInt (int (weekday (clock 1)))),
          (''correlated_columns'', PFloat 0), (''complexity_score'', PFloat 0), (''has_indexes'', PFloat 1)]"
  by (simp add: FeatureExtractor_extract_def bind_err_def dict_get_def estimate_filter_selectivity_def
      calculate_complexity_def detect_correlations_def check_indexes_def)




section \<open>Purity of feature extraction\<close>

text \<open>
  Claim C2, as stated, fails: the feature dictionary holds the hour and the day of the week
  read from the wall clock at the time of the call. The same (empty) query extracted at ten
  and at eleven o'clock gives two different dictionaries.
\<close>

theorem extract_depends_on_clock:
  "FeatureExtractor_extract \<lparr>correlation_cache = []\<rparr> (clock_at 10 2) []
     \<noteq> FeatureExtractor_extract \<lparr>correlation_cache = []\<rparr> (clock_at 11 2) []"
  by (simp add: extract_empty clock_at_def)

text \<open>
  Claim C2, amended. The feature dictionary is a function of the query, of the hour of the
  first clock reading and of the day of the week of the second: two calls on the same query
  whose readings agree on these two values yield identical results, whatever the rest of the
  clock and whatever the correlation cache holds.
\<close>

theorem extract_deterministic_given_clock:
  assumes "hour (clock 0) = hour (clock' 0)" and "weekday (clock 1) = weekday (clock' 1)"
  shows "FeatureExtractor_extract self clock q = FeatureExtractor_extract self' clock' q"
  using assms
  by (simp add: FeatureExtractor_extract_def detect_correlations_def)

theorem extract_deterministic_given_clock_witness:
  "hour (clock_at 10 2 0) = hour (readings \<lparr>hour = 10, weekday = 5\<rparr> \<lparr>hour = 23, weekday = 2\<rparr> 0)
   \<and> weekday (clock_at 10 2 1) = weekday (readings \<lparr>hour = 10, weekday = 5\<rparr> \<lparr>hour = 23, weekday = 2\<rparr> 1)
   \<and> FeatureExtractor_extract \<lparr>correlation_cache = []\<rparr> (clock_at 10 2)
         [(''filters'', PList [PDict [(''operator'', PStr ''>'')]])]
     = FeatureExtractor_extract \<lparr>correlation_cache = [(''age,city'', PFloat 1)]\<rparr>
         (readings \<lparr>hour = 10, weekday = 5\<rparr> \<lparr>hour = 23, weekday = 2\<rparr>)
         [(''filters'', PList [PDict [(''operator'', PStr ''>'')]])]"
proof -
  let ?c = "readings \<lparr>hour = 10, weekday = 5\<rparr> \<lparr>hour = 23, weekday = 2\<rparr>"
  have h: "hour (clock_at 10 2 0) = hour (?c 0)"
    by (simp add: clock_at_def readings_def)
  have w: "weekday (clock_at 10 2 1) = weekday (?c 1)"
    by (simp add: clock_at_def readings_def)
  show ?thesis
    using h w extract_deterministic_given_clock [OF h w] by blast
qed

section \<open>Loading a model artifact\<close>





section \<open>The feature names stored by training\<close>

lemma train_loop_sample_logs:
  "\<exists>X y. train_loop fe clock 0 (sample_logs now) [] [] = Inr (X, y)"
  by (simp add: sample_logs_def FeatureExtractor_extract_def bind_err_def dict_get_def
      estimate_filter_selectivity_def selectivity_step_def calculate_complexity_def Let_def)

text \<open>
  Claim C4. After training, \<^verbatim>\<open>feature_names\<close> should be the ordered feature names of the
  extracted vectors. The source stores the keys of the first log's query dictionary instead:
  on the example logs of the module, whatever the regressor does, \<^verbatim>\<open>feature_names\<close> is
  \<^verbatim>\<open>filters, joins, aggregations, table_stats\<close>, while both extracted vectors carry the
  eleven feature names.
\<close>

theorem train_stores_query_keys:
  "feature_names (snd (train lib clock (init m) (sample_logs now)))
     = [''filters'', ''joins'', ''aggregations'', ''table_stats'']
   \<and> feature_names (snd (train lib clock (init m) (sample_logs now))) \<noteq> feature_schema
   \<and> map (\<lambda>lg. map_sum id dict_keys (FeatureExtractor_extract (feature_extractor (init m)) clock (query lg)))
         (sample_logs now) = [Inr feature_schema, Inr feature_schema]"
proof -
  obtain X y where l: "train_loop (feature_extractor (init m)) clock 0 (sample_logs now) [] [] = Inr (X, y)"
    using train_loop_sample_logs by blast
  have ne: "sample_logs now \<noteq> []" by (simp add: sample_logs_def)
  have k: "(case sample_logs now of [] \<Rightarrow> [] | log0 # _ \<Rightarrow> dict_keys (query log0))
      = [''filters'', ''joins'', ''aggregations'', ''table_stats'']"
    by (simp add: sample_logs_def dict_keys_def)
  have a: "feature_names (snd (train lib clock (init m) (sample_logs now)))
     = [''filters'', ''joins'', ''aggregations'', ''table_stats'']"
    using l ne k by (simp add: train_def Let_def split: sum.splits)
  have b: "map (\<lambda>lg. map_sum id dict_keys (FeatureExtractor_extract (feature_extractor (init m)) clock (query lg)))
         (sample_logs now) = [Inr feature_schema, Inr feature_schema]"
    by (simp add: sample_logs_def FeatureExtractor_extract_def bind_err_def dict_get_def
      estimate_filter_selectivity_def selectivity_step_def calculate_complexity_def
      dict_keys_def feature_schema_def Let_def)
  show ?thesis using a b by (simp add: feature_schema_def)
qed

section \<open>Reading the query log\<close>











section \<open>The minimum sample count\<close>







end
